theory Spec2Isabelle
  imports Main
begin

section \<open>ShopEasy service worker: a shallow embedding\<close>

text \<open>
  The development follows the service worker with the strategy functions
  (the file that declares \<^verbatim>\<open>APP_VERSION\<close>), and, for the install step, also
  \<^verbatim>\<open>src/sw.js\<close>. Promises are modelled by their settled outcome: a value of
  \<open>js_error + 'a\<close>, \<open>Inl\<close> for a rejection or a thrown exception. The Cache API, the
  network and the host are the platform; each is modelled by the small part of
  its documented behaviour that the handlers use.
\<close>

subsection \<open>Strings\<close>

text \<open>\<^verbatim>\<open>s.startsWith(p)\<close>, \<^verbatim>\<open>s.includes(t)\<close>, and the test a regular expression
  anchored with \<^verbatim>\<open>$\<close> (no flags) makes: the string ends with the given text.\<close>

fun startsWith :: "string \<Rightarrow> string \<Rightarrow> bool" where
  "startsWith s [] = True"
| "startsWith [] (c # p) = False"
| "startsWith (x # s) (c # p) = (x = c \<and> startsWith s p)"

fun str_includes :: "string \<Rightarrow> string \<Rightarrow> bool" where
  "str_includes [] t = (t = [])"
| "str_includes (x # s) t = (startsWith (x # s) t \<or> str_includes s t)"

definition endsWith :: "string \<Rightarrow> string \<Rightarrow> bool" where
  "endsWith s t = startsWith (rev s) (rev t)"

text \<open>\<^verbatim>\<open>url.match(/\.(e1|e2|...)$/)\<close>: the URL ends with a dot and one of the
  extensions.\<close>

definition match_ext :: "string list \<Rightarrow> string \<Rightarrow> bool" where
  "match_ext exts url = list_ex (\<lambda>e. endsWith url (CHR ''.'' # e)) exts"

subsection \<open>Requests, responses, errors\<close>

datatype js_error = NetworkError | SyntaxError | TypeError

text \<open>A response: its status, its \<^verbatim>\<open>Content-Type\<close> header and its body.\<close>

record response =
  status :: nat
  content_type :: "string option"
  body :: string

text \<open>\<^verbatim>\<open>response.ok\<close>: the status is in the range 200 to 299.\<close>

definition ok :: "response \<Rightarrow> bool" where
  "ok r = (200 \<le> status r \<and> status r \<le> 299)"

text \<open>\<^verbatim>\<open>new Response(body, { headers: { 'Content-Type': ct } })\<close> has status 200.\<close>

definition new_Response :: "string \<Rightarrow> string \<Rightarrow> response" where
  "new_Response b ct = \<lparr>status = 200, content_type = Some ct, body = b\<rparr>"

text \<open>The request descriptor: the method, the absolute URL, the hostname of
  \<^verbatim>\<open>new URL(request.url)\<close> and the value of \<^verbatim>\<open>headers.get('Accept')\<close>
  (\<open>None\<close> for \<^verbatim>\<open>null\<close>).\<close>

record request =
  req_method :: string
  req_url :: string
  req_hostname :: string
  req_accept :: "string option"

text \<open>\<^verbatim>\<open>request.headers.get('Accept')?.includes('text/html')\<close>, as a condition.\<close>

definition accepts_html :: "request \<Rightarrow> bool" where
  "accepts_html req =
     (case req_accept req of None \<Rightarrow> False | Some a \<Rightarrow> str_includes a ''text/html'')"

subsection \<open>The fetch listener's routing\<close>

datatype strategy = NetworkFirst | CacheFirst | ImageCacheFirst | NetworkFirstWithCacheUpdate

text \<open>The fetch listener's chain of tests. \<open>None\<close>: the listener returns without
  calling \<^verbatim>\<open>respondWith\<close>; \<open>Some s\<close>: it responds with strategy \<open>s\<close>.\<close>

definition fetch_route :: "request \<Rightarrow> strategy option" where
  "fetch_route req =
     (if req_method req \<noteq> ''GET'' then None
      else if accepts_html req then Some NetworkFirst
      else if match_ext [''css'', ''js'', ''woff'', ''woff2''] (req_url req) then Some CacheFirst
      else if match_ext [''png'', ''jpg'', ''jpeg'', ''gif'', ''svg'', ''webp''] (req_url req)
        then Some ImageCacheFirst
      else if str_includes (req_hostname req) ''firestore.googleapis.com'' \<or>
              str_includes (req_hostname req) ''firebasestorage.googleapis.com''
        then Some NetworkFirstWithCacheUpdate
      else Some NetworkFirst)"

subsection \<open>The Cache API\<close>

text \<open>
  A cache maps request URLs to responses; the cache storage maps names to caches,
  kept in creation order (the order \<^verbatim>\<open>caches.keys()\<close> and \<^verbatim>\<open>caches.match\<close> follow).
  The handlers only store and look up \<^verbatim>\<open>GET\<close> requests, so the URL is the key.
\<close>

type_synonym cache = "(string \<times> response) list"
type_synonym cache_storage = "(string \<times> cache) list"

fun cache_put :: "string \<Rightarrow> response \<Rightarrow> cache \<Rightarrow> cache" where
  "cache_put k r [] = [(k, r)]"
| "cache_put k r ((k', r') # c) =
     (if k' = k then (k, r) # c else (k', r') # cache_put k r c)"

text \<open>\<^verbatim>\<open>caches.match(request)\<close>: the first cache, in creation order, that holds the
  key answers; \<open>None\<close> is \<^verbatim>\<open>undefined\<close>.\<close>

fun caches_match :: "cache_storage \<Rightarrow> string \<Rightarrow> response option" where
  "caches_match [] k = None"
| "caches_match ((n, c) # cs) k =
     (case map_of c k of Some r \<Rightarrow> Some r | None \<Rightarrow> caches_match cs k)"

text \<open>\<^verbatim>\<open>caches.open(name)\<close> creates the cache when it is absent.\<close>

fun caches_open :: "string \<Rightarrow> cache_storage \<Rightarrow> cache_storage" where
  "caches_open n [] = [(n, [])]"
| "caches_open n ((n', c) # cs) =
     (if n' = n then (n', c) # cs else (n', c) # caches_open n cs)"

fun store_put :: "string \<Rightarrow> string \<Rightarrow> response \<Rightarrow> cache_storage \<Rightarrow> cache_storage" where
  "store_put n k r [] = []"
| "store_put n k r ((n', c) # cs) =
     (if n' = n then (n', cache_put k r c) # cs else (n', c) # store_put n k r cs)"

text \<open>\<^verbatim>\<open>const cache = await caches.open(name); cache.put(request, response)\<close>.
  The platform's \<^verbatim>\<open>put\<close> rejects a partial response (status 206); the handlers do
  not await it, so a rejected \<^verbatim>\<open>put\<close> only leaves the store as it was.\<close>

definition open_put :: "string \<Rightarrow> string \<Rightarrow> response \<Rightarrow> cache_storage \<Rightarrow> cache_storage" where
  "open_put n k r cs =
     (if status r = 206 then caches_open n cs else store_put n k r (caches_open n cs))"

definition caches_keys :: "cache_storage \<Rightarrow> string list" where
  "caches_keys cs = map fst cs"

definition caches_delete :: "string \<Rightarrow> cache_storage \<Rightarrow> cache_storage" where
  "caches_delete n cs = filter (\<lambda>p. fst p \<noteq> n) cs"

subsection \<open>JavaScript values of messages and push payloads\<close>

text \<open>Numbers are restricted to integers: the handlers only test them for
  truthiness.\<close>

datatype js_value =
    JUndefined
  | JNull
  | JBool bool
  | JNum int
  | JStr string
  | JArr "js_value list"
  | JObj "(string \<times> js_value) list"

text \<open>Reading a property, for the names the handlers read (\<^verbatim>\<open>action\<close>,
  \<^verbatim>\<open>title\<close>, \<^verbatim>\<open>body\<close>, \<^verbatim>\<open>url\<close>): \<^verbatim>\<open>null\<close> and \<^verbatim>\<open>undefined\<close> throw a
  \<^verbatim>\<open>TypeError\<close>, an object gives its field or \<^verbatim>\<open>undefined\<close>, and every other
  value gives \<^verbatim>\<open>undefined\<close>.\<close>

fun get_prop :: "js_value \<Rightarrow> string \<Rightarrow> js_error + js_value" where
  "get_prop JUndefined f = Inl TypeError"
| "get_prop JNull f = Inl TypeError"
| "get_prop (JObj fs) f = (case map_of fs f of Some v \<Rightarrow> Inr v | None \<Rightarrow> Inr JUndefined)"
| "get_prop v f = Inr JUndefined"

fun truthy :: "js_value \<Rightarrow> bool" where
  "truthy JUndefined = False"
| "truthy JNull = False"
| "truthy (JBool b) = b"
| "truthy (JNum n) = (n \<noteq> 0)"
| "truthy (JStr s) = (s \<noteq> [])"
| "truthy v = True"

text \<open>\<^verbatim>\<open>a || b\<close>.\<close>

definition js_or :: "js_value \<Rightarrow> js_value \<Rightarrow> js_value" where
  "js_or a b = (if truthy a then a else b)"

subsection \<open>The worker's world\<close>

text \<open>
  Everything a handler can change: the cache storage, the log of the URLs fetched
  from the network, the skip-waiting flag (\<^verbatim>\<open>self.skipWaiting()\<close>), whether the
  clients were claimed, the messages posted to \<^verbatim>\<open>event.source\<close> and the
  notifications shown.
\<close>

record notification =
  n_title :: js_value
  n_body :: js_value
  n_icon :: string
  n_badge :: string
  n_vibrate :: "nat list"
  n_data_url :: js_value

record world =
  caches :: cache_storage
  fetches :: "string list"
  skip_waiting :: bool
  claimed :: bool
  posted :: "js_value list"
  notifications :: "notification list"

text \<open>The network: the outcome of the \<open>n\<close>-th fetch the worker makes, for a URL.
  \<open>Inl\<close>: the fetch rejects (no connection); \<open>Inr r\<close>: a response arrived, whatever
  its status.\<close>

type_synonym network = "nat \<Rightarrow> string \<Rightarrow> js_error + response"

definition do_fetch :: "network \<Rightarrow> string \<Rightarrow> world \<Rightarrow> (js_error + response) \<times> world" where
  "do_fetch net u w = (net (length (fetches w)) u, w\<lparr>fetches := fetches w @ [u]\<rparr>)"

subsection \<open>Constants of the worker\<close>

definition APP_VERSION :: string where
  "APP_VERSION = ''1.0.1''"

definition CACHE_NAME :: string where
  "CACHE_NAME = ''shopeasy-v'' @ APP_VERSION"

definition DYNAMIC_CACHE :: string where
  "DYNAMIC_CACHE = ''shopeasy-dynamic-v1''"

definition STATIC_ASSETS :: "string list" where
  "STATIC_ASSETS =
     [''/'',
      ''/index.html'',
      ''logo.png'',
      ''manifest.json'',
      ''https://cdnjs.cloudflare.com/ajax/libs/font-awesome/6.4.0/css/all.min.css'',
      ''https://www.gstatic.com/firebasejs/10.7.1/firebase-app.js'',
      ''https://www.gstatic.com/firebasejs/10.7.1/firebase-firestore.js'']"

definition STATIC_CACHE :: "string list" where
  "STATIC_CACHE = [''/'', ''/index.html'', ''logo.png'', ''manifest.json'']"

definition EXTERNAL_RESOURCES :: "string list" where
  "EXTERNAL_RESOURCES =
     [''https://cdnjs.cloudflare.com/ajax/libs/font-awesome/6.4.0/css/all.min.css'',
      ''https://www.gstatic.com/firebasejs/10.7.1/firebase-app.js'',
      ''https://www.gstatic.com/firebasejs/10.7.1/firebase-firestore.js'']"

definition sw_CACHE_NAME :: string where
  "sw_CACHE_NAME = ''shopeasy-v1.0.1''"

definition dq :: string where
  "dq = [CHR 0x22]"

definition nl :: string where
  "nl = [CHR 0x0A]"

definition placeholderSvg :: string where
  "placeholderSvg =
     nl @
     ''      <svg xmlns='' @ dq @ ''http://www.w3.org/2000/svg'' @ dq @
       '' width='' @ dq @ ''200'' @ dq @ '' height='' @ dq @ ''200'' @ dq @
       '' viewBox='' @ dq @ ''0 0 200 200'' @ dq @ ''>'' @ nl @
     ''        <rect width='' @ dq @ ''100%'' @ dq @ '' height='' @ dq @ ''100%'' @ dq @
       '' fill='' @ dq @ ''#f0f0f0'' @ dq @ ''/>'' @ nl @
     ''        <text x='' @ dq @ ''50%'' @ dq @ '' y='' @ dq @ ''50%'' @ dq @
       '' text-anchor='' @ dq @ ''middle'' @ dq @ '' dy='' @ dq @ ''.3em'' @ dq @
       '' fill='' @ dq @ ''#999'' @ dq @ '' font-family='' @ dq @ ''sans-serif'' @ dq @
       '' font-size='' @ dq @ ''14'' @ dq @ ''>'' @ nl @
     ''          Image'' @ nl @
     ''        </text>'' @ nl @
     ''      </svg>'' @ nl @
     ''    ''"

subsection \<open>The strategies\<close>

text \<open>
  A strategy returns what its promise settles to, and the world after it:
  \<open>Inl e\<close> when it rejects, \<open>Inr None\<close> when it resolves with \<^verbatim>\<open>undefined\<close>
  (which \<^verbatim>\<open>respondWith\<close> turns into a failed request), \<open>Inr (Some r)\<close> when it
  resolves with a response. The writes the source starts without awaiting them are
  carried out at once. \<open>base\<close> resolves the URL strings the worker hands to the
  Cache API (\<^verbatim>\<open>'/'\<close>, \<^verbatim>\<open>'logo.png'\<close>) against the worker's location.
\<close>

type_synonym settled = "js_error + response option"

definition networkFirst ::
  "(string \<Rightarrow> string) \<Rightarrow> network \<Rightarrow> request \<Rightarrow> world \<Rightarrow> settled \<times> world" where
  "networkFirst base net request w =
     (case do_fetch net (req_url request) w of
        (Inr networkResponse, w1) \<Rightarrow>
          (Inr (Some networkResponse),
           w1\<lparr>caches := open_put DYNAMIC_CACHE (req_url request) networkResponse (caches w1)\<rparr>)
      | (Inl error, w1) \<Rightarrow>
          (case caches_match (caches w1) (req_url request) of
             Some cachedResponse \<Rightarrow> (Inr (Some cachedResponse), w1)
           | None \<Rightarrow>
               if accepts_html request
               then (Inr (caches_match (caches w1) (base ''/'')), w1)
               else (Inl error, w1)))"

definition cacheFirst :: "network \<Rightarrow> request \<Rightarrow> world \<Rightarrow> settled \<times> world" where
  "cacheFirst net request w =
     (case caches_match (caches w) (req_url request) of
        Some cachedResponse \<Rightarrow> (Inr (Some cachedResponse), w)
      | None \<Rightarrow>
          (case do_fetch net (req_url request) w of
             (Inr networkResponse, w1) \<Rightarrow>
               (Inr (Some networkResponse),
                if ok networkResponse
                then w1\<lparr>caches :=
                       open_put DYNAMIC_CACHE (req_url request) networkResponse (caches w1)\<rparr>
                else w1)
           | (Inl error, w1) \<Rightarrow>
               if endsWith (req_url request) ''.css''
               then (Inr (Some (new_Response [] ''text/css'')), w1)
               else if endsWith (req_url request) ''.js''
               then (Inr (Some (new_Response (''console.log('' @ dq @ ''Offline mode'' @ dq @ '');'')
                                  ''application/javascript'')), w1)
               else (Inl error, w1)))"

definition imageCacheFirst ::
  "(string \<Rightarrow> string) \<Rightarrow> network \<Rightarrow> request \<Rightarrow> world \<Rightarrow> settled \<times> world" where
  "imageCacheFirst base net request w =
     (case caches_match (caches w) (req_url request) of
        Some cachedResponse \<Rightarrow> (Inr (Some cachedResponse), w)
      | None \<Rightarrow>
          (case do_fetch net (req_url request) w of
             (Inr networkResponse, w1) \<Rightarrow>
               (Inr (Some networkResponse),
                if ok networkResponse
                then w1\<lparr>caches :=
                       open_put DYNAMIC_CACHE (req_url request) networkResponse (caches w1)\<rparr>
                else w1)
           | (Inl error, w1) \<Rightarrow>
               if str_includes (req_url request) ''placeholder'' \<or>
                  str_includes (req_url request) ''postimg.cc''
               then (Inr (caches_match (caches w1) (base ''logo.png'')), w1)
               else (Inr (Some (new_Response placeholderSvg ''image/svg+xml'')), w1)))"

definition networkFirstWithCacheUpdate :: "network \<Rightarrow> request \<Rightarrow> world \<Rightarrow> settled \<times> world" where
  "networkFirstWithCacheUpdate net request w =
     (case do_fetch net (req_url request) w of
        (Inr networkResponse, w1) \<Rightarrow>
          (Inr (Some networkResponse),
           w1\<lparr>caches := open_put DYNAMIC_CACHE (req_url request) networkResponse (caches w1)\<rparr>)
      | (Inl error, w1) \<Rightarrow>
          (case caches_match (caches w1) (req_url request) of
             Some cachedResponse \<Rightarrow> (Inr (Some cachedResponse), w1)
           | None \<Rightarrow>
               if str_includes (req_url request) ''firestore.googleapis.com''
               then (Inr (Some (new_Response ''[]'' ''application/json'')), w1)
               else (Inl error, w1)))"

text \<open>Running the strategy the router chose.\<close>

fun run_strategy ::
  "strategy \<Rightarrow> (string \<Rightarrow> string) \<Rightarrow> network \<Rightarrow> request \<Rightarrow> world \<Rightarrow> settled \<times> world" where
  "run_strategy NetworkFirst base net request w = networkFirst base net request w"
| "run_strategy CacheFirst base net request w = cacheFirst net request w"
| "run_strategy ImageCacheFirst base net request w = imageCacheFirst base net request w"
| "run_strategy NetworkFirstWithCacheUpdate base net request w =
     networkFirstWithCacheUpdate net request w"

text \<open>The fetch listener: \<open>None\<close> when it does not respond (the request goes to the
  network untouched), otherwise what the chosen strategy settles to.\<close>

definition fetch_listener ::
  "(string \<Rightarrow> string) \<Rightarrow> network \<Rightarrow> request \<Rightarrow> world \<Rightarrow> settled option \<times> world" where
  "fetch_listener base net request w =
     (case fetch_route request of
        None \<Rightarrow> (None, w)
      | Some s \<Rightarrow> (case run_strategy s base net request w of (r, w1) \<Rightarrow> (Some r, w1)))"

subsection \<open>Install\<close>

text \<open>
  \<^verbatim>\<open>cache.addAll(urls)\<close> fetches every URL; when a fetch rejects or a response is
  not \<^verbatim>\<open>ok\<close> (or is partial), it rejects with a \<^verbatim>\<open>TypeError\<close> and stores nothing;
  otherwise it stores every response under its URL.
\<close>

fun fetch_each :: "network \<Rightarrow> string list \<Rightarrow> world \<Rightarrow> (js_error + response) list \<times> world" where
  "fetch_each net [] w = ([], w)"
| "fetch_each net (u # us) w =
     (case do_fetch net u w of (r, w1) \<Rightarrow>
        (case fetch_each net us w1 of (rs, w2) \<Rightarrow> (r # rs, w2)))"

definition addable :: "js_error + response \<Rightarrow> bool" where
  "addable r = (case r of Inl e \<Rightarrow> False | Inr resp \<Rightarrow> ok resp \<and> status resp \<noteq> 206)"

fun put_each :: "string \<Rightarrow> (string \<times> (js_error + response)) list \<Rightarrow> cache_storage \<Rightarrow> cache_storage" where
  "put_each n [] cs = cs"
| "put_each n ((u, Inr resp) # rest) cs = put_each n rest (store_put n u resp cs)"
| "put_each n ((u, Inl e) # rest) cs = put_each n rest cs"

definition cache_addAll ::
  "(string \<Rightarrow> string) \<Rightarrow> network \<Rightarrow> string \<Rightarrow> string list \<Rightarrow> world \<Rightarrow> (js_error + unit) \<times> world" where
  "cache_addAll base net n urls w =
     (case fetch_each net (map base urls) w of (rs, w1) \<Rightarrow>
        if list_all addable rs
        then (Inr (), w1\<lparr>caches := put_each n (zip (map base urls) rs) (caches w1)\<rparr>)
        else (Inl TypeError, w1))"

text \<open>The install listener of the worker with the strategy functions: the promise
  handed to \<^verbatim>\<open>event.waitUntil\<close>. Its chain ends in a \<^verbatim>\<open>.catch\<close> that logs the
  error and returns nothing, so the promise resolves.\<close>

definition install_listener ::
  "(string \<Rightarrow> string) \<Rightarrow> network \<Rightarrow> world \<Rightarrow> (js_error + unit) \<times> world" where
  "install_listener base net w =
     (case cache_addAll base net CACHE_NAME STATIC_ASSETS
             (w\<lparr>caches := caches_open CACHE_NAME (caches w)\<rparr>) of
        (Inr u, w1) \<Rightarrow> (Inr (), w1\<lparr>skip_waiting := True\<rparr>)
      | (Inl error, w1) \<Rightarrow> (Inr (), w1))"

text \<open>The install listener of \<^verbatim>\<open>src/sw.js\<close>: the same chain without the
  \<^verbatim>\<open>.catch\<close>.\<close>

definition sw_install_listener ::
  "(string \<Rightarrow> string) \<Rightarrow> network \<Rightarrow> world \<Rightarrow> (js_error + unit) \<times> world" where
  "sw_install_listener base net w =
     (case cache_addAll base net sw_CACHE_NAME (STATIC_CACHE @ EXTERNAL_RESOURCES)
             (w\<lparr>caches := caches_open sw_CACHE_NAME (caches w)\<rparr>) of
        (Inr u, w1) \<Rightarrow> (Inr (), w1\<lparr>skip_waiting := True\<rparr>)
      | (Inl error, w1) \<Rightarrow> (Inl error, w1))"

text \<open>
  The host's step when the promise handed to \<^verbatim>\<open>waitUntil\<close> settles. A rejected
  promise fails the install: the new worker is discarded. A resolved promise makes
  it the installed candidate; it then waits while another version is active, unless
  its skip-waiting flag is set, and otherwise goes on to activate.
\<close>

datatype lifecycle = Redundant | Waiting | Activating

definition host_after_install :: "bool \<Rightarrow> (js_error + unit) \<times> world \<Rightarrow> lifecycle" where
  "host_after_install other_active settled_install =
     (case fst settled_install of
        Inl error \<Rightarrow> Redundant
      | Inr u \<Rightarrow>
          if skip_waiting (snd settled_install) \<or> \<not> other_active then Activating else Waiting)"

subsection \<open>Activate\<close>

text \<open>The activate listener: for every name of \<^verbatim>\<open>caches.keys()\<close>, delete the cache
  unless it is the current static cache or the dynamic cache; then claim the
  clients.\<close>

definition activate_listener :: "world \<Rightarrow> (js_error + unit) \<times> world" where
  "activate_listener w =
     (Inr (),
      w\<lparr>caches :=
           fold (\<lambda>cacheName cs.
                   if cacheName \<noteq> CACHE_NAME \<and> cacheName \<noteq> DYNAMIC_CACHE
                   then caches_delete cacheName cs else cs)
                (caches_keys (caches w)) (caches w),
        claimed := True\<rparr>)"

subsection \<open>Messages\<close>

text \<open>The message listener, on \<^verbatim>\<open>event.data\<close>. The reply goes to
  \<^verbatim>\<open>event.source\<close>, the client that sent the message; \<open>posted\<close> collects what
  that client receives.\<close>

definition message_listener :: "js_value \<Rightarrow> world \<Rightarrow> (js_error + unit) \<times> world" where
  "message_listener message w =
     (case get_prop message ''action'' of
        Inl error \<Rightarrow> (Inl error, w)
      | Inr action \<Rightarrow>
          (let w1 = (if action = JStr ''skipWaiting'' then w\<lparr>skip_waiting := True\<rparr> else w);
               w2 = (if action = JStr ''CLEAR_CACHE''
                     then w1\<lparr>caches := fold caches_delete (caches_keys (caches w1)) (caches w1)\<rparr>
                     else w1);
               w3 = (if action = JStr ''versionCheck''
                     then w2\<lparr>posted := posted w2 @
                            [JObj [(''action'', JStr ''versionResponse''),
                                   (''version'', JStr APP_VERSION)]]\<rparr>
                     else w2)
           in (Inr (), w3)))"

subsection \<open>Push\<close>

text \<open>
  The push listener, on \<^verbatim>\<open>event.data\<close>: \<open>None\<close> when the push carries no data,
  otherwise the outcome of \<^verbatim>\<open>event.data.json()\<close>, which throws a \<^verbatim>\<open>SyntaxError\<close>
  on a payload that is not JSON. The listener has no \<^verbatim>\<open>try\<close>: what \<^verbatim>\<open>json()\<close> or a
  property read throws leaves the listener. The title, the body and the URL of a
  notification are kept as the JavaScript values the listener passes on.
\<close>

definition push_listener :: "(js_error + js_value) option \<Rightarrow> world \<Rightarrow> (js_error + unit) \<times> world" where
  "push_listener event_data w =
     (case event_data of
        None \<Rightarrow> (Inr (), w)
      | Some json \<Rightarrow>
          (case json of
             Inl error \<Rightarrow> (Inl error, w)
           | Inr data \<Rightarrow>
               (case get_prop data ''body'' of
                  Inl error \<Rightarrow> (Inl error, w)
                | Inr b \<Rightarrow>
                    (case get_prop data ''url'' of
                       Inl error \<Rightarrow> (Inl error, w)
                     | Inr u \<Rightarrow>
                         (case get_prop data ''title'' of
                            Inl error \<Rightarrow> (Inl error, w)
                          | Inr t \<Rightarrow>
                              (Inr (),
                               w\<lparr>notifications := notifications w @
                                    [\<lparr>n_title = js_or t (JStr ''ShopEasy''),
                                      n_body = js_or b (JStr ''New update from ShopEasy''),
                                      n_icon = ''logo.png'',
                                      n_badge = ''logo.png'',
                                      n_vibrate = [100, 50, 100],
                                      n_data_url = js_or u (JStr ''/'')\<rparr>]\<rparr>))))))"

subsection \<open>Auxiliary functions for the statements\<close>

text \<open>The outcomes of fetching a list of URLs one after the other, the first of
  them being the worker's \<open>n\<close>-th fetch.\<close>

fun fetch_outcomes :: "network \<Rightarrow> nat \<Rightarrow> string list \<Rightarrow> (js_error + response) list" where
  "fetch_outcomes net n [] = []"
| "fetch_outcomes net n (u # us) = net n u # fetch_outcomes net (Suc n) us"

text \<open>A sequence of Cache-First lookups, each with the network of its moment; the
  log \<open>fetches\<close> of the world counts the fetches they make.\<close>

fun cacheFirst_repeat :: "(network \<times> request) list \<Rightarrow> world \<Rightarrow> settled list \<times> world" where
  "cacheFirst_repeat [] w = ([], w)"
| "cacheFirst_repeat ((net, request) # rest) w =
     (case cacheFirst net request w of (r, w1) \<Rightarrow>
        (case cacheFirst_repeat rest w1 of (rs, w2) \<Rightarrow> (r # rs, w2)))"

subsection \<open>Concrete worlds, networks and requests\<close>

definition empty_world :: world where
  "empty_world = \<lparr>caches = [], fetches = [], skip_waiting = False, claimed = False,
                   posted = [], notifications = []\<rparr>"

text \<open>No connection; every URL answers 200; every URL answers a given status; every
  URL but one answers 200.\<close>

definition net_down :: network where
  "net_down = (\<lambda>n u. Inl NetworkError)"

definition net_up :: network where
  "net_up = (\<lambda>n u. Inr \<lparr>status = 200, content_type = None, body = ''x''\<rparr>)"

definition net_status :: "nat \<Rightarrow> network" where
  "net_status s = (\<lambda>n u. Inr \<lparr>status = s, content_type = Some ''text/html'', body = ''error''\<rparr>)"

definition net_without :: "string \<Rightarrow> network" where
  "net_without missing = (\<lambda>n u. if u = missing then Inl NetworkError else net_up n u)"

definition page_request :: request where
  "page_request = \<lparr>req_method = ''GET'', req_url = ''https://shop.example/'',
                    req_hostname = ''shop.example'',
                    req_accept = Some ''text/html,application/xhtml+xml''\<rparr>"

definition css_request :: request where
  "css_request = \<lparr>req_method = ''GET'', req_url = ''https://shop.example/css/app.css'',
                   req_hostname = ''shop.example'', req_accept = Some ''text/css,*/*;q=0.1''\<rparr>"

definition js_request :: request where
  "js_request = \<lparr>req_method = ''GET'', req_url = ''https://shop.example/app.js'',
                  req_hostname = ''shop.example'', req_accept = Some ''*/*''\<rparr>"

definition image_request :: request where
  "image_request = \<lparr>req_method = ''GET'', req_url = ''https://i.postimg.cc/abc/photo.png'',
                     req_hostname = ''i.postimg.cc'', req_accept = Some ''image/avif,image/webp,*/*''\<rparr>"

definition data_request :: request where
  "data_request = \<lparr>req_method = ''GET'',
                    req_url = ''https://firestore.googleapis.com/v1/projects/shop/documents/products'',
                    req_hostname = ''firestore.googleapis.com'', req_accept = Some ''*/*''\<rparr>"

definition json_request :: request where
  "json_request = \<lparr>req_method = ''GET'', req_url = ''https://shop.example/api/cart'',
                    req_hostname = ''shop.example'', req_accept = None\<rparr>"

definition post_request :: request where
  "post_request = \<lparr>req_method = ''POST'', req_url = ''https://shop.example/api/order'',
                    req_hostname = ''shop.example'', req_accept = Some ''text/html''\<rparr>"

text \<open>A storage with the static cache of an earlier version, the current static
  cache and the dynamic cache.\<close>

definition upgrade_world :: world where
  "upgrade_world =
     empty_world\<lparr>caches :=
       [(''shopeasy-v1.0.0'', [(''/'', \<lparr>status = 200, content_type = None, body = ''old''\<rparr>)]),
        (''shopeasy-v1.0.1'', [(''/'', \<lparr>status = 200, content_type = None, body = ''new''\<rparr>)]),
        (''shopeasy-dynamic-v1'',
           [(''https://shop.example/css/app.css'',
             \<lparr>status = 200, content_type = Some ''text/css'', body = ''body{}''\<rparr>)])]\<rparr>"

section \<open>Theorems\<close>

subsection \<open>Helper lemmas\<close>

lemma endsWith_css_not_js: "endsWith u ''.css'' \<Longrightarrow> \<not> endsWith u ''.js''"
  unfolding endsWith_def
  by (cases "rev u"; simp; cases "tl (rev u)"; simp)

lemma fetch_each_eq:
  "fetch_each net us w =
     (fetch_outcomes net (length (fetches w)) us, w\<lparr>fetches := fetches w @ us\<rparr>)"
  by (induction us arbitrary: w) (simp_all add: do_fetch_def)

lemma fold_delete_filter:
  "fold (\<lambda>n cs. if P n then caches_delete n cs else cs) ns cs =
   filter (\<lambda>p. \<not> (fst p \<in> set ns \<and> P (fst p))) cs"
proof (induction ns arbitrary: cs)
  case Nil
  then show ?case by simp
next
  case (Cons n ns)
  show ?case
    by (auto simp: Cons.IH caches_delete_def intro!: filter_cong)
qed

lemma activate_caches:
  "caches (snd (activate_listener w)) =
   filter (\<lambda>p. fst p = CACHE_NAME \<or> fst p = DYNAMIC_CACHE) (caches w)"
  unfolding activate_listener_def
  by (auto simp: fold_delete_filter caches_keys_def intro!: filter_cong)

lemma map_of_filter_key:
  "P k \<Longrightarrow> map_of (filter (\<lambda>p. P (fst p)) xs) k = map_of xs k"
  by (induction xs) auto

lemma cacheFirst_hit:
  "caches_match (caches w) (req_url request) = Some r \<Longrightarrow>
   cacheFirst net request w = (Inr (Some r), w)"
  by (simp add: cacheFirst_def)

lemma cacheFirst_repeat_hit:
  "caches_match (caches w) k = Some r \<Longrightarrow>
   list_all (\<lambda>p. req_url (snd p) = k) nrs \<Longrightarrow>
   cacheFirst_repeat nrs w = (replicate (length nrs) (Inr (Some r)), w)"
proof (induction nrs)
  case Nil
  then show ?case by simp
next
  case (Cons p nrs)
  obtain net request where p: "p = (net, request)" by (cases p)
  with Cons.prems have "cacheFirst net request w = (Inr (Some r), w)"
    by (simp add: cacheFirst_hit)
  with Cons p show ?case by simp
qed

subsection \<open>The router\<close>

text \<open>
  C1. The fetch listener's classification is a function of the request descriptor
  that follows the fixed priority order. A request that is not a \<^verbatim>\<open>GET\<close> is left
  alone: the listener does not respond and changes nothing. A \<^verbatim>\<open>GET\<close> request gets
  exactly one strategy: Network-First when the Accept header contains
  \<^verbatim>\<open>text/html\<close>; otherwise Cache-First when the URL ends in \<^verbatim>\<open>.css\<close>, \<^verbatim>\<open>.js\<close>,
  \<^verbatim>\<open>.woff\<close> or \<^verbatim>\<open>.woff2\<close>; otherwise Image-Cache-First when it ends in an image
  extension; otherwise Network-First-With-Cache-Update when the hostname contains one
  of the two remote data store hostnames; otherwise Network-First. The listener then
  responds with what that strategy settles to.
\<close>

theorem fetch_route_priority:
  "(req_method req \<noteq> ''GET'' \<longrightarrow>
      fetch_route req = None \<and> fetch_listener base net req w = (None, w)) \<and>
   (req_method req = ''GET'' \<longrightarrow>
      (\<exists>!s. fetch_route req = Some s) \<and>
      (\<forall>s. fetch_route req = Some s \<longrightarrow>
         fetch_listener base net req w =
           (Some (fst (run_strategy s base net req w)), snd (run_strategy s base net req w))) \<and>
      (accepts_html req \<longrightarrow> fetch_route req = Some NetworkFirst) \<and>
      (\<not> accepts_html req \<and> match_ext [''css'', ''js'', ''woff'', ''woff2''] (req_url req)
         \<longrightarrow> fetch_route req = Some CacheFirst) \<and>
      (\<not> accepts_html req \<and> \<not> match_ext [''css'', ''js'', ''woff'', ''woff2''] (req_url req) \<and>
       match_ext [''png'', ''jpg'', ''jpeg'', ''gif'', ''svg'', ''webp''] (req_url req)
         \<longrightarrow> fetch_route req = Some ImageCacheFirst) \<and>
      (\<not> accepts_html req \<and> \<not> match_ext [''css'', ''js'', ''woff'', ''woff2''] (req_url req) \<and>
       \<not> match_ext [''png'', ''jpg'', ''jpeg'', ''gif'', ''svg'', ''webp''] (req_url req) \<and>
       (str_includes (req_hostname req) ''firestore.googleapis.com'' \<or>
        str_includes (req_hostname req) ''firebasestorage.googleapis.com'')
         \<longrightarrow> fetch_route req = Some NetworkFirstWithCacheUpdate) \<and>
      (\<not> accepts_html req \<and> \<not> match_ext [''css'', ''js'', ''woff'', ''woff2''] (req_url req) \<and>
       \<not> match_ext [''png'', ''jpg'', ''jpeg'', ''gif'', ''svg'', ''webp''] (req_url req) \<and>
       \<not> str_includes (req_hostname req) ''firestore.googleapis.com'' \<and>
       \<not> str_includes (req_hostname req) ''firebasestorage.googleapis.com''
         \<longrightarrow> fetch_route req = Some NetworkFirst))"
proof (intro conjI impI)
  assume "req_method req \<noteq> ''GET''"
  then show "fetch_route req = None" by (simp add: fetch_route_def)
  then show "fetch_listener base net req w = (None, w)" by (simp add: fetch_listener_def)
next
  assume "req_method req = ''GET''"
  then show "\<exists>!s. fetch_route req = Some s" by (simp add: fetch_route_def)
next
  show "\<forall>s. fetch_route req = Some s \<longrightarrow>
         fetch_listener base net req w =
           (Some (fst (run_strategy s base net req w)), snd (run_strategy s base net req w))"
    by (simp add: fetch_listener_def split: prod.splits)
qed (simp_all add: fetch_route_def)

text \<open>The theorem at one request of each kind: a form post, a page, a stylesheet
  (routed and run with no connection), an image, a remote data request and a request
  with no Accept header.\<close>

theorem fetch_route_priority_witness:
  "fetch_route post_request = None \<and>
   fetch_listener id net_down post_request empty_world = (None, empty_world) \<and>
   fetch_route page_request = Some NetworkFirst \<and>
   fetch_route css_request = Some CacheFirst \<and>
   fetch_listener id net_down css_request empty_world =
     (Some (Inr (Some \<lparr>status = 200, content_type = Some ''text/css'', body = []\<rparr>)),
      empty_world\<lparr>fetches := [''https://shop.example/css/app.css'']\<rparr>) \<and>
   fetch_route image_request = Some ImageCacheFirst \<and>
   fetch_route data_request = Some NetworkFirstWithCacheUpdate \<and>
   fetch_route json_request = Some NetworkFirst"
proof -
  have "fetch_route post_request = None \<and>
        fetch_listener id net_down post_request empty_world = (None, empty_world)"
    using fetch_route_priority [of post_request id net_down empty_world]
    by (simp add: post_request_def)
  moreover have page: "fetch_route page_request = Some NetworkFirst"
    using fetch_route_priority [of page_request id net_down empty_world]
    by (simp add: page_request_def accepts_html_def)
  moreover have css: "fetch_route css_request = Some CacheFirst"
    using fetch_route_priority [of css_request id net_down empty_world]
    by (simp add: css_request_def accepts_html_def match_ext_def endsWith_def)
  moreover have "fetch_listener id net_down css_request empty_world =
     (Some (Inr (Some \<lparr>status = 200, content_type = Some ''text/css'', body = []\<rparr>)),
      empty_world\<lparr>fetches := [''https://shop.example/css/app.css'']\<rparr>)"
  proof -
    have m: "req_method css_request = ''GET''"
      by (simp add: css_request_def)
    have run: "run_strategy CacheFirst id net_down css_request empty_world =
      (Inr (Some \<lparr>status = 200, content_type = Some ''text/css'', body = []\<rparr>),
       empty_world\<lparr>fetches := [''https://shop.example/css/app.css'']\<rparr>)"
      by (simp add: cacheFirst_def do_fetch_def net_down_def empty_world_def css_request_def
            endsWith_def new_Response_def)
    from fetch_route_priority [of css_request id net_down empty_world] m css run
    show ?thesis by simp
  qed
  moreover have "fetch_route image_request = Some ImageCacheFirst"
    using fetch_route_priority [of image_request id net_down empty_world]
    by (simp add: image_request_def accepts_html_def match_ext_def endsWith_def)
  moreover have "fetch_route data_request = Some NetworkFirstWithCacheUpdate"
    using fetch_route_priority [of data_request id net_down empty_world]
    by (simp add: data_request_def accepts_html_def match_ext_def endsWith_def)
  moreover have "fetch_route json_request = Some NetworkFirst"
    using fetch_route_priority [of json_request id net_down empty_world]
    by (simp add: json_request_def accepts_html_def match_ext_def endsWith_def)
  ultimately show ?thesis by blast
qed

subsection \<open>Activation\<close>

text \<open>
  C4. After the activate listener, every cache left in the storage is the current
  static cache or the dynamic cache: each cache with any other name, such as the
  static cache of a prior version, is deleted. The dynamic cache and the current
  static cache are what they were, entry for entry. The listener resolves.
\<close>

theorem activate_listener_cleanup:
  "fst (activate_listener w) = Inr () \<and>
   (\<forall>n \<in> set (caches_keys (caches (snd (activate_listener w)))).
      n = CACHE_NAME \<or> n = DYNAMIC_CACHE) \<and>
   (\<forall>n \<in> set (caches_keys (caches w)).
      n \<noteq> CACHE_NAME \<and> n \<noteq> DYNAMIC_CACHE \<longrightarrow>
      n \<notin> set (caches_keys (caches (snd (activate_listener w))))) \<and>
   filter (\<lambda>p. fst p = DYNAMIC_CACHE) (caches (snd (activate_listener w))) =
     filter (\<lambda>p. fst p = DYNAMIC_CACHE) (caches w) \<and>
   map_of (caches (snd (activate_listener w))) DYNAMIC_CACHE = map_of (caches w) DYNAMIC_CACHE \<and>
   map_of (caches (snd (activate_listener w))) CACHE_NAME = map_of (caches w) CACHE_NAME"
proof -
  let ?keep = "\<lambda>n. n = CACHE_NAME \<or> n = DYNAMIC_CACHE"
  let ?after = "caches (snd (activate_listener w))"
  have c: "?after = filter (\<lambda>p. ?keep (fst p)) (caches w)"
    by (rule activate_caches)
  have r: "fst (activate_listener w) = Inr ()"
    by (simp add: activate_listener_def)
  have k1: "\<forall>n \<in> set (caches_keys ?after). ?keep n"
    unfolding c caches_keys_def by auto
  have k2: "\<forall>n \<in> set (caches_keys (caches w)).
      n \<noteq> CACHE_NAME \<and> n \<noteq> DYNAMIC_CACHE \<longrightarrow> n \<notin> set (caches_keys ?after)"
    unfolding c caches_keys_def by auto
  have d: "filter (\<lambda>p. fst p = DYNAMIC_CACHE) ?after =
     filter (\<lambda>p. fst p = DYNAMIC_CACHE) (caches w)"
    unfolding c by (auto intro!: filter_cong)
  have m1: "map_of ?after DYNAMIC_CACHE = map_of (caches w) DYNAMIC_CACHE"
    unfolding c by (rule map_of_filter_key) simp
  have m2: "map_of ?after CACHE_NAME = map_of (caches w) CACHE_NAME"
    unfolding c by (rule map_of_filter_key) simp
  from r k1 k2 d m1 m2 show ?thesis by blast
qed

text \<open>The theorem on a storage that holds the static cache of version 1.0.0 beside
  the current one and the dynamic cache: the old cache is gone, the dynamic cache
  still holds its stylesheet.\<close>

theorem activate_listener_cleanup_witness:
  "''shopeasy-v1.0.0'' \<in> set (caches_keys (caches upgrade_world)) \<and>
   ''shopeasy-v1.0.0'' \<notin> set (caches_keys (caches (snd (activate_listener upgrade_world)))) \<and>
   set (caches_keys (caches (snd (activate_listener upgrade_world)))) \<subseteq>
     {''shopeasy-v1.0.1'', ''shopeasy-dynamic-v1''} \<and>
   map_of (caches (snd (activate_listener upgrade_world))) DYNAMIC_CACHE =
     Some [(''https://shop.example/css/app.css'',
            \<lparr>status = 200, content_type = Some ''text/css'', body = ''body{}''\<rparr>)]"
proof -
  note inst = activate_listener_cleanup [of upgrade_world]
  have keys: "caches_keys (caches upgrade_world) =
                [''shopeasy-v1.0.0'', ''shopeasy-v1.0.1'', ''shopeasy-dynamic-v1'']"
    by (simp add: upgrade_world_def empty_world_def caches_keys_def)
  have old: "''shopeasy-v1.0.0'' \<noteq> CACHE_NAME \<and> ''shopeasy-v1.0.0'' \<noteq> DYNAMIC_CACHE"
    by (simp add: CACHE_NAME_def APP_VERSION_def DYNAMIC_CACHE_def)
  have names: "{CACHE_NAME, DYNAMIC_CACHE} = {''shopeasy-v1.0.1'', ''shopeasy-dynamic-v1''}"
    by (simp add: CACHE_NAME_def APP_VERSION_def DYNAMIC_CACHE_def)
  have dyn: "map_of (caches upgrade_world) DYNAMIC_CACHE =
     Some [(''https://shop.example/css/app.css'',
            \<lparr>status = 200, content_type = Some ''text/css'', body = ''body{}''\<rparr>)]"
    by (simp add: upgrade_world_def empty_world_def DYNAMIC_CACHE_def)
  have gone: "''shopeasy-v1.0.0'' \<notin> set (caches_keys (caches (snd (activate_listener upgrade_world))))"
    using inst keys old by simp
  have left: "set (caches_keys (caches (snd (activate_listener upgrade_world)))) \<subseteq>
                {CACHE_NAME, DYNAMIC_CACHE}"
    using inst by blast
  have kept: "map_of (caches (snd (activate_listener upgrade_world))) DYNAMIC_CACHE =
                map_of (caches upgrade_world) DYNAMIC_CACHE"
    using inst by blast
  from keys gone left kept show ?thesis
    unfolding names dyn by simp
qed

subsection \<open>Cache-First\<close>

text \<open>
  C5. When the storage holds an entry for the request's URL, Cache-First resolves
  with the stored response and leaves the world as it was: no fetch is logged and
  no cache changes. The same holds for any sequence of later lookups of that URL,
  whatever the network is at each of them: every one resolves with the stored
  response and the fetch log stays as it was.
\<close>

theorem cacheFirst_hit_no_fetch:
  assumes "caches_match (caches w) (req_url request) = Some r"
    and "list_all (\<lambda>p. req_url (snd p) = req_url request) later"
  shows "cacheFirst net request w = (Inr (Some r), w) \<and>
         cacheFirst_repeat later w = (replicate (length later) (Inr (Some r)), w) \<and>
         fetches (snd (cacheFirst_repeat ((net, request) # later) w)) = fetches w"
proof -
  have one: "cacheFirst net request w = (Inr (Some r), w)"
    using assms(1) by (rule cacheFirst_hit)
  have many: "cacheFirst_repeat later w = (replicate (length later) (Inr (Some r)), w)"
    using assms by (rule cacheFirst_repeat_hit)
  from one many show ?thesis by simp
qed

text \<open>The theorem on the storage above, which holds the stylesheet in the dynamic
  cache: three lookups, with and without a connection, and no fetch.\<close>

theorem cacheFirst_hit_no_fetch_witness:
  "caches_match (caches upgrade_world) (req_url css_request) =
     Some \<lparr>status = 200, content_type = Some ''text/css'', body = ''body{}''\<rparr> \<and>
   cacheFirst net_up css_request upgrade_world =
     (Inr (Some \<lparr>status = 200, content_type = Some ''text/css'', body = ''body{}''\<rparr>),
      upgrade_world) \<and>
   fetches (snd (cacheFirst_repeat
      [(net_up, css_request), (net_down, css_request), (net_up, css_request)] upgrade_world)) = []"
proof -
  have hit: "caches_match (caches upgrade_world) (req_url css_request) =
     Some \<lparr>status = 200, content_type = Some ''text/css'', body = ''body{}''\<rparr>"
    by (simp add: upgrade_world_def empty_world_def css_request_def)
  have same: "list_all (\<lambda>p. req_url (snd p) = req_url css_request)
                [(net_down, css_request), (net_up, css_request)]"
    by simp
  have log: "fetches upgrade_world = []"
    by (simp add: upgrade_world_def empty_world_def)
  from cacheFirst_hit_no_fetch [OF hit same, of net_up] hit log show ?thesis
    by simp
qed

text \<open>
  C7. Cache-First never rejects for a stylesheet or a script, that is a request
  whose URL ends in \<^verbatim>\<open>.css\<close> or \<^verbatim>\<open>.js\<close>. When the storage has no entry for the
  request and the fetch fails, it resolves with a fallback: for \<^verbatim>\<open>.css\<close> an empty
  \<^verbatim>\<open>text/css\<close> response, for \<^verbatim>\<open>.js\<close> the script \<^verbatim>\<open>console.log("Offline mode");\<close>
  as \<^verbatim>\<open>application/javascript\<close>; and it writes nothing into the storage.
\<close>

theorem cacheFirst_fallback:
  "(endsWith (req_url request) ''.css'' \<or> endsWith (req_url request) ''.js'' \<longrightarrow>
      (\<exists>r. fst (cacheFirst net request w) = Inr (Some r))) \<and>
   (caches_match (caches w) (req_url request) = None \<and>
    net (length (fetches w)) (req_url request) = Inl e \<longrightarrow>
      (endsWith (req_url request) ''.css'' \<longrightarrow>
         fst (cacheFirst net request w) =
           Inr (Some \<lparr>status = 200, content_type = Some ''text/css'', body = []\<rparr>)) \<and>
      (endsWith (req_url request) ''.js'' \<longrightarrow>
         fst (cacheFirst net request w) =
           Inr (Some \<lparr>status = 200, content_type = Some ''application/javascript'',
                     body = ''console.log('' @ dq @ ''Offline mode'' @ dq @ '');''\<rparr>)) \<and>
      caches (snd (cacheFirst net request w)) = caches w)"
proof (intro conjI impI)
  assume "endsWith (req_url request) ''.css'' \<or> endsWith (req_url request) ''.js''"
  then show "\<exists>r. fst (cacheFirst net request w) = Inr (Some r)"
    by (auto simp: cacheFirst_def do_fetch_def split: option.splits sum.splits)
next
  assume h: "caches_match (caches w) (req_url request) = None \<and>
             net (length (fetches w)) (req_url request) = Inl e"
  then show "caches (snd (cacheFirst net request w)) = caches w"
    by (simp add: cacheFirst_def do_fetch_def)
  {
    assume "endsWith (req_url request) ''.css''"
    with h show "fst (cacheFirst net request w) =
           Inr (Some \<lparr>status = 200, content_type = Some ''text/css'', body = []\<rparr>)"
      by (simp add: cacheFirst_def do_fetch_def new_Response_def)
  }
  {
    assume js: "endsWith (req_url request) ''.js''"
    then have "\<not> endsWith (req_url request) ''.css''"
      using endsWith_css_not_js by blast
    with h js show "fst (cacheFirst net request w) =
           Inr (Some \<lparr>status = 200, content_type = Some ''application/javascript'',
                     body = ''console.log('' @ dq @ ''Offline mode'' @ dq @ '');''\<rparr>)"
      by (simp add: cacheFirst_def do_fetch_def new_Response_def)
  }
qed

text \<open>The theorem for a stylesheet and a script, with and without a connection, on
  an empty storage.\<close>

theorem cacheFirst_fallback_witness:
  "(\<exists>r. fst (cacheFirst net_up css_request empty_world) = Inr (Some r)) \<and>
   fst (cacheFirst net_down css_request empty_world) =
     Inr (Some \<lparr>status = 200, content_type = Some ''text/css'', body = []\<rparr>) \<and>
   fst (cacheFirst net_down js_request empty_world) =
     Inr (Some \<lparr>status = 200, content_type = Some ''application/javascript'',
               body = ''console.log('' @ dq @ ''Offline mode'' @ dq @ '');''\<rparr>) \<and>
   caches (snd (cacheFirst net_down js_request empty_world)) = []"
proof -
  have miss: "caches_match (caches empty_world) u = None" for u
    by (simp add: empty_world_def)
  have down: "net_down (length (fetches empty_world)) u = Inl NetworkError" for u
    by (simp add: net_down_def)
  have css: "endsWith (req_url css_request) ''.css''"
    by (simp add: css_request_def endsWith_def)
  have js: "endsWith (req_url js_request) ''.js''"
    by (simp add: js_request_def endsWith_def)
  have e: "caches empty_world = []"
    by (simp add: empty_world_def)
  from cacheFirst_fallback [of css_request net_up empty_world NetworkError]
       cacheFirst_fallback [of css_request net_down empty_world NetworkError] miss down css
       cacheFirst_fallback [of js_request net_down empty_world NetworkError] js e
  show ?thesis by simp
qed

subsection \<open>Install\<close>

text \<open>The install listener of the worker with the strategy functions resolves
  whatever the network does; the one of \<^verbatim>\<open>src/sw.js\<close> rejects exactly when an asset
  could not be added, and then leaves the static cache as \<^verbatim>\<open>caches.open\<close> left
  it.\<close>

lemma install_listener_never_rejects: "fst (install_listener base net w) = Inr ()"
  by (simp add: install_listener_def cache_addAll_def fetch_each_eq)

lemma sw_install_listener_rejects_iff:
  "fst (sw_install_listener base net w) = Inl TypeError \<longleftrightarrow>
   \<not> list_all addable
       (fetch_outcomes net (length (fetches w)) (map base (STATIC_CACHE @ EXTERNAL_RESOURCES)))"
  by (simp add: sw_install_listener_def cache_addAll_def fetch_each_eq)

lemma sw_install_listener_failure_stores_nothing:
  "fst (sw_install_listener base net w) = Inl e \<Longrightarrow>
   caches (snd (sw_install_listener base net w)) = caches_open sw_CACHE_NAME (caches w)"
  by (simp add: sw_install_listener_def cache_addAll_def fetch_each_eq split: if_splits)

text \<open>
  C10. An install whose every asset is fetched with an \<^verbatim>\<open>ok\<close> response resolves and
  calls \<^verbatim>\<open>self.skipWaiting()\<close> as its last step: the world it leaves is the world
  after the caching step with the skip-waiting flag set, so the host moves the
  new version on to activation and does not keep it waiting, also while another
  version is active. The listener reads no message and no flag, so this holds
  whatever the world was before. It holds for the install listener of the worker
  with the strategy functions and for the one of \<^verbatim>\<open>src/sw.js\<close>; for the latter,
  every install that resolves has set the flag.
\<close>

theorem install_skip_waiting:
  "(list_all addable (fetch_outcomes net (length (fetches w)) (map base STATIC_ASSETS)) \<longrightarrow>
      fst (install_listener base net w) = Inr () \<and>
      skip_waiting (snd (install_listener base net w)) \<and>
      snd (install_listener base net w) =
        (snd (cache_addAll base net CACHE_NAME STATIC_ASSETS
               (w\<lparr>caches := caches_open CACHE_NAME (caches w)\<rparr>)))\<lparr>skip_waiting := True\<rparr> \<and>
      host_after_install other_active (install_listener base net w) = Activating) \<and>
   (list_all addable
      (fetch_outcomes net (length (fetches w)) (map base (STATIC_CACHE @ EXTERNAL_RESOURCES))) \<longrightarrow>
      fst (sw_install_listener base net w) = Inr () \<and>
      skip_waiting (snd (sw_install_listener base net w)) \<and>
      host_after_install other_active (sw_install_listener base net w) = Activating) \<and>
   (fst (sw_install_listener base net w) = Inr () \<longrightarrow>
      skip_waiting (snd (sw_install_listener base net w)) \<and>
      host_after_install other_active (sw_install_listener base net w) = Activating)"
  by (simp add: install_listener_def sw_install_listener_def cache_addAll_def fetch_each_eq
        host_after_install_def)

text \<open>The theorem with every URL answering 200, from a world whose flag is not
  set, while another version is active.\<close>

theorem install_skip_waiting_witness:
  "\<not> skip_waiting empty_world \<and>
   fst (install_listener id net_up empty_world) = Inr () \<and>
   skip_waiting (snd (install_listener id net_up empty_world)) \<and>
   host_after_install True (install_listener id net_up empty_world) = Activating \<and>
   fst (sw_install_listener id net_up empty_world) = Inr () \<and>
   skip_waiting (snd (sw_install_listener id net_up empty_world)) \<and>
   host_after_install True (sw_install_listener id net_up empty_world) = Activating"
proof -
  have a: "list_all addable (fetch_outcomes net_up n us)" for n us
    by (induction us arbitrary: n) (simp_all add: net_up_def addable_def ok_def)
  have f: "\<not> skip_waiting empty_world"
    by (simp add: empty_world_def)
  from install_skip_waiting [of net_up empty_world id True] a f show ?thesis
    by simp
qed

text \<open>
  C2, at a failing input. The fetch of \<^verbatim>\<open>manifest.json\<close> fails. The install
  listener of the worker with the strategy functions still resolves: its
  \<^verbatim>\<open>.catch\<close> logs the error and returns. The static cache is left created and
  empty, \<^verbatim>\<open>skipWaiting\<close> is not called, and the host keeps the new version as the
  waiting candidate. The install listener of \<^verbatim>\<open>src/sw.js\<close>, the same chain without
  the \<^verbatim>\<open>.catch\<close>, rejects at the same input, and the host discards the version.
\<close>

theorem install_listener_swallows_failure:
  "install_listener id (net_without ''manifest.json'') empty_world =
     (Inr (), empty_world\<lparr>caches := [(''shopeasy-v1.0.1'', [])], fetches := STATIC_ASSETS\<rparr>) \<and>
   host_after_install True (install_listener id (net_without ''manifest.json'') empty_world) =
     Waiting \<and>
   fst (sw_install_listener id (net_without ''manifest.json'') empty_world) = Inl TypeError \<and>
   host_after_install True (sw_install_listener id (net_without ''manifest.json'') empty_world) =
     Redundant"
  by (simp add: install_listener_def sw_install_listener_def cache_addAll_def fetch_each_eq
        host_after_install_def net_without_def net_up_def addable_def ok_def empty_world_def
        STATIC_ASSETS_def STATIC_CACHE_def EXTERNAL_RESOURCES_def
        CACHE_NAME_def sw_CACHE_NAME_def APP_VERSION_def)

subsection \<open>What a complete install stores\<close>

lemma cache_put_keys:
  "map fst (cache_put k r c) = (if k \<in> set (map fst c) then map fst c else map fst c @ [k])"
  by (induction c) force+

lemma map_of_cache_put: "map_of (cache_put k r c) = (map_of c)(k \<mapsto> r)"
  by (induction c) auto

lemma map_of_store_put:
  "map_of (store_put n k r cs) n' =
     (if n' = n then map_option (cache_put k r) (map_of cs n) else map_of cs n')"
  by (induction cs) auto

lemma map_of_caches_open:
  "map_of (caches_open n cs) n' =
     (if n' = n then Some (case map_of cs n of None \<Rightarrow> [] | Some c \<Rightarrow> c) else map_of cs n')"
  by (induction cs) auto

lemma put_each_store:
  assumes "map_of cs n = Some c" and "distinct (map fst c)" and "length us = length rs"
    and "list_all addable rs"
  shows "\<exists>c'. map_of (put_each n (zip us rs) cs) n = Some c' \<and> distinct (map fst c') \<and>
              set (map fst c') = set (map fst c) \<union> set us \<and>
              (\<forall>u \<in> set us. \<exists>r. map_of c' u = Some r \<and> ok r) \<and>
              (\<forall>v. v \<notin> set us \<longrightarrow> map_of c' v = map_of c v)"
  using assms
proof (induction us rs arbitrary: cs c rule: list_induct2')
  case 1
  then show ?case by simp
next
  case (2 u us)
  then show ?case by simp
next
  case (3 r rs)
  then show ?case by simp
next
  case (4 u us r rs)
  from "4.prems" obtain resp where r: "r = Inr resp" and okr: "ok resp"
    by (cases r) (auto simp: addable_def)
  let ?cs = "store_put n u resp cs"
  let ?c = "cache_put u resp c"
  have m: "map_of ?cs n = Some ?c"
    using "4.prems"(1) by (simp add: map_of_store_put)
  have d: "distinct (map fst ?c)"
    using "4.prems"(2) by (simp add: cache_put_keys)
  have l: "length us = length rs" and a: "list_all addable rs"
    using "4.prems" by simp_all
  from "4.IH" [OF m d l a] obtain c' where
    c': "map_of (put_each n (zip us rs) ?cs) n = Some c'" "distinct (map fst c')"
        "set (map fst c') = set (map fst ?c) \<union> set us"
        "\<forall>v \<in> set us. \<exists>r. map_of c' v = Some r \<and> ok r"
        "\<forall>v. v \<notin> set us \<longrightarrow> map_of c' v = map_of ?c v"
    by blast
  have keys: "set (map fst c') = set (map fst c) \<union> set (u # us)"
    using c'(3) by (auto simp: cache_put_keys split: if_splits)
  have new: "\<exists>r. map_of c' u = Some r \<and> ok r"
  proof (cases "u \<in> set us")
    case True
    with c'(4) show ?thesis by blast
  next
    case False
    with c'(5) have "map_of c' u = Some resp"
      by (simp add: map_of_cache_put)
    with okr show ?thesis by blast
  qed
  have old: "\<forall>v. v \<notin> set (u # us) \<longrightarrow> map_of c' v = map_of c v"
    using c'(5) by (simp add: map_of_cache_put)
  have step: "put_each n (zip (u # us) (r # rs)) cs = put_each n (zip us rs) ?cs"
    using r by simp
  from c'(1,2,4) keys new old show ?case
    unfolding step by auto
qed

text \<open>\<^verbatim>\<open>cache.addAll\<close> is all or nothing: when it rejects, the storage is as it
  was; when it resolves, the cache holds exactly one entry for every URL of the
  list, each an \<^verbatim>\<open>ok\<close> response, beside the entries it held for other URLs.\<close>

lemma cache_addAll_failure:
  "fst (cache_addAll base net n urls w) = Inl e \<Longrightarrow>
   caches (snd (cache_addAll base net n urls w)) = caches w"
  by (simp add: cache_addAll_def fetch_each_eq split: if_splits)

lemma cache_addAll_success:
  assumes "fst (cache_addAll base net n urls w) = Inr ()"
    and "map_of (caches w) n = Some c" and "distinct (map fst c)"
  shows "\<exists>c'. map_of (caches (snd (cache_addAll base net n urls w))) n = Some c' \<and>
              distinct (map fst c') \<and>
              set (map fst c') = set (map fst c) \<union> set (map base urls) \<and>
              (\<forall>u \<in> set (map base urls). \<exists>r. map_of c' u = Some r \<and> ok r)"
proof -
  let ?us = "map base urls"
  let ?rs = "fetch_outcomes net (length (fetches w)) ?us"
  have len: "length (fetch_outcomes net k us) = length us" for k us
    by (induction us arbitrary: k) simp_all
  from assms(1) have add: "list_all addable ?rs"
    by (simp add: cache_addAll_def fetch_each_eq split: if_splits)
  then have after: "caches (snd (cache_addAll base net n urls w)) =
                      put_each n (zip ?us ?rs) (caches w)"
    by (simp add: cache_addAll_def fetch_each_eq)
  have l: "length ?us = length ?rs"
    by (simp only: len)
  from put_each_store [OF assms(2) assms(3) l add] obtain c' where
    "map_of (put_each n (zip ?us ?rs) (caches w)) n = Some c'"
    "distinct (map fst c')" "set (map fst c') = set (map fst c) \<union> set ?us"
    "\<forall>u \<in> set ?us. \<exists>r. map_of c' u = Some r \<and> ok r"
    by blast
  then show ?thesis
    unfolding after by (intro exI [of _ c']) simp
qed

text \<open>When the install listener of \<^verbatim>\<open>src/sw.js\<close> resolves, or every asset of the
  other install listener is fetched with an \<^verbatim>\<open>ok\<close> response, and the static cache
  did not exist before, the static cache holds exactly one entry for every URL of
  the manifest and nothing else.\<close>

lemma sw_install_listener_stores_manifest:
  assumes "fst (sw_install_listener base net w) = Inr ()"
    and "map_of (caches w) sw_CACHE_NAME = None"
  shows "\<exists>c'. map_of (caches (snd (sw_install_listener base net w))) sw_CACHE_NAME = Some c' \<and>
              distinct (map fst c') \<and>
              set (map fst c') = set (map base (STATIC_CACHE @ EXTERNAL_RESOURCES)) \<and>
              (\<forall>u \<in> set (map base (STATIC_CACHE @ EXTERNAL_RESOURCES)).
                 \<exists>r. map_of c' u = Some r \<and> ok r)"
proof -
  let ?w = "w\<lparr>caches := caches_open sw_CACHE_NAME (caches w)\<rparr>"
  let ?urls = "STATIC_CACHE @ EXTERNAL_RESOURCES"
  from assms(1) have res: "fst (cache_addAll base net sw_CACHE_NAME ?urls ?w) = Inr ()"
    by (auto simp: sw_install_listener_def split: prod.splits sum.splits)
  then have same: "caches (snd (sw_install_listener base net w)) =
                     caches (snd (cache_addAll base net sw_CACHE_NAME ?urls ?w))"
    by (auto simp: sw_install_listener_def split: prod.splits sum.splits)
  have m: "map_of (caches ?w) sw_CACHE_NAME = Some []"
    using assms(2) by (simp add: map_of_caches_open)
  have d: "distinct (map fst ([] :: cache))"
    by simp
  from cache_addAll_success [OF res m d] show ?thesis
    unfolding same by simp
qed

lemma install_listener_stores_manifest:
  assumes "list_all addable (fetch_outcomes net (length (fetches w)) (map base STATIC_ASSETS))"
    and "map_of (caches w) CACHE_NAME = None"
  shows "\<exists>c'. map_of (caches (snd (install_listener base net w))) CACHE_NAME = Some c' \<and>
              distinct (map fst c') \<and>
              set (map fst c') = set (map base STATIC_ASSETS) \<and>
              (\<forall>u \<in> set (map base STATIC_ASSETS). \<exists>r. map_of c' u = Some r \<and> ok r)"
proof -
  let ?w = "w\<lparr>caches := caches_open CACHE_NAME (caches w)\<rparr>"
  from assms(1) have res: "fst (cache_addAll base net CACHE_NAME STATIC_ASSETS ?w) = Inr ()"
    by (simp add: cache_addAll_def fetch_each_eq)
  then have same: "caches (snd (install_listener base net w)) =
                     caches (snd (cache_addAll base net CACHE_NAME STATIC_ASSETS ?w))"
    by (auto simp: install_listener_def split: prod.splits sum.splits)
  have m: "map_of (caches ?w) CACHE_NAME = Some []"
    using assms(2) by (simp add: map_of_caches_open)
  have d: "distinct (map fst ([] :: cache))"
    by simp
  from cache_addAll_success [OF res m d] show ?thesis
    unfolding same by simp
qed

subsection \<open>What the strategies store\<close>

text \<open>Cache-First and Image-Cache-First test \<^verbatim>\<open>networkResponse.ok\<close> before they
  store: when they change the storage, they resolved with an \<^verbatim>\<open>ok\<close> response and
  stored that response in the dynamic cache.\<close>

lemma cacheFirst_stores_only_ok:
  "caches (snd (cacheFirst net request w)) \<noteq> caches w \<Longrightarrow>
   \<exists>r. fst (cacheFirst net request w) = Inr (Some r) \<and> ok r \<and>
       caches (snd (cacheFirst net request w)) =
         open_put DYNAMIC_CACHE (req_url request) r (caches w)"
  by (auto simp: cacheFirst_def do_fetch_def split: option.splits sum.splits if_splits)

lemma imageCacheFirst_stores_only_ok:
  "caches (snd (imageCacheFirst base net request w)) \<noteq> caches w \<Longrightarrow>
   \<exists>r. fst (imageCacheFirst base net request w) = Inr (Some r) \<and> ok r \<and>
       caches (snd (imageCacheFirst base net request w)) =
         open_put DYNAMIC_CACHE (req_url request) r (caches w)"
  by (auto simp: imageCacheFirst_def do_fetch_def split: option.splits sum.splits if_splits)

text \<open>
  C3, at a failing input. Network-First and Network-First-With-Cache-Update store
  the network response without testing its status. A page request answered with
  status 500 is routed to Network-First, which stores the 500 response in the
  dynamic cache; a remote data request answered with status 404 leaves the 404
  response there.
\<close>

theorem networkFirst_stores_error_response:
  "fetch_route page_request = Some NetworkFirst \<and>
   caches (snd (fetch_listener id (net_status 500) page_request empty_world)) =
     [(''shopeasy-dynamic-v1'',
       [(''https://shop.example/'',
         \<lparr>status = 500, content_type = Some ''text/html'', body = ''error''\<rparr>)])] \<and>
   \<not> ok \<lparr>status = 500, content_type = Some ''text/html'', body = ''error''\<rparr> \<and>
   fetch_route data_request = Some NetworkFirstWithCacheUpdate \<and>
   caches (snd (fetch_listener id (net_status 404) data_request empty_world)) =
     [(''shopeasy-dynamic-v1'',
       [(''https://firestore.googleapis.com/v1/projects/shop/documents/products'',
         \<lparr>status = 404, content_type = Some ''text/html'', body = ''error''\<rparr>)])]"
  by (simp add: fetch_listener_def fetch_route_def networkFirst_def
        networkFirstWithCacheUpdate_def do_fetch_def open_put_def net_status_def ok_def
        page_request_def data_request_def empty_world_def accepts_html_def match_ext_def
        endsWith_def DYNAMIC_CACHE_def)

subsection \<open>Image-Cache-First\<close>

text \<open>On a miss with a failed fetch, a URL that contains neither
  \<^verbatim>\<open>placeholder\<close> nor \<^verbatim>\<open>postimg.cc\<close> gets the generated SVG image, with status 200.\<close>

lemma imageCacheFirst_svg_fallback:
  "caches_match (caches w) (req_url request) = None \<Longrightarrow>
   net (length (fetches w)) (req_url request) = Inl e \<Longrightarrow>
   \<not> str_includes (req_url request) ''placeholder'' \<Longrightarrow>
   \<not> str_includes (req_url request) ''postimg.cc'' \<Longrightarrow>
   fst (imageCacheFirst base net request w) =
     Inr (Some \<lparr>status = 200, content_type = Some ''image/svg+xml'', body = placeholderSvg\<rparr>)"
  by (simp add: imageCacheFirst_def do_fetch_def new_Response_def)

text \<open>A URL that contains one of them gets whatever \<^verbatim>\<open>caches.match('logo.png')\<close>
  finds.\<close>

lemma imageCacheFirst_logo_fallback:
  "caches_match (caches w) (req_url request) = None \<Longrightarrow>
   net (length (fetches w)) (req_url request) = Inl e \<Longrightarrow>
   str_includes (req_url request) ''placeholder'' \<or> str_includes (req_url request) ''postimg.cc'' \<Longrightarrow>
   fst (imageCacheFirst base net request w) = Inr (caches_match (caches w) (base ''logo.png''))"
  by (auto simp: imageCacheFirst_def do_fetch_def)

text \<open>
  C6, at a failing input. For a URL that contains \<^verbatim>\<open>postimg.cc\<close> the fallback is
  \<^verbatim>\<open>caches.match('logo.png')\<close>, which is \<^verbatim>\<open>undefined\<close> when no cache holds the
  logo. After a complete install followed by a \<^verbatim>\<open>CLEAR_CACHE\<close> message the storage
  is empty; an image request to \<^verbatim>\<open>i.postimg.cc\<close> with no connection is routed to
  Image-Cache-First, which then resolves with \<^verbatim>\<open>undefined\<close>, not with a response.
\<close>

theorem imageCacheFirst_placeholder_missing:
  "fetch_route image_request = Some ImageCacheFirst \<and>
   caches (snd (message_listener (JObj [(''action'', JStr ''CLEAR_CACHE'')])
                  (snd (install_listener id net_up empty_world)))) = [] \<and>
   fst (fetch_listener id net_down image_request
          (snd (message_listener (JObj [(''action'', JStr ''CLEAR_CACHE'')])
                  (snd (install_listener id net_up empty_world))))) = Some (Inr None)"
  by (simp add: fetch_listener_def fetch_route_def imageCacheFirst_def message_listener_def
        install_listener_def cache_addAll_def fetch_each_eq do_fetch_def
        net_up_def net_down_def addable_def ok_def empty_world_def image_request_def
        accepts_html_def match_ext_def endsWith_def caches_keys_def caches_delete_def
        STATIC_ASSETS_def CACHE_NAME_def APP_VERSION_def)

subsection \<open>Messages\<close>

text \<open>
  C9, as the claim states it, fails on the code. The listener does not know the
  action \<^verbatim>\<open>version-query\<close>: such a message gets no reply. The action it answers is
  \<^verbatim>\<open>versionCheck\<close>, and the reply's action is \<^verbatim>\<open>versionResponse\<close>, not
  \<^verbatim>\<open>version-response\<close>.
\<close>

theorem message_listener_version_query_counterexample:
  "posted (snd (message_listener (JObj [(''action'', JStr ''version-query'')]) empty_world)) = [] \<and>
   posted (snd (message_listener (JObj [(''action'', JStr ''versionCheck'')]) empty_world)) \<noteq>
     [JObj [(''action'', JStr ''version-response''), (''version'', JStr APP_VERSION)]]"
  by (simp add: message_listener_def empty_world_def)

text \<open>
  C9, amended. For every message whose \<^verbatim>\<open>action\<close> is \<^verbatim>\<open>versionCheck\<close> the listener
  posts to the sender exactly one message, the object with \<^verbatim>\<open>action\<close>
  \<^verbatim>\<open>versionResponse\<close> and \<^verbatim>\<open>version\<close> \<^verbatim>\<open>APP_VERSION\<close> (\<^verbatim>\<open>1.0.1\<close>), and changes
  nothing else. For a message with any other action it posts nothing.
\<close>

theorem message_listener_versionCheck:
  "(get_prop message ''action'' = Inr (JStr ''versionCheck'') \<longrightarrow>
      message_listener message w =
        (Inr (), w\<lparr>posted := posted w @
                   [JObj [(''action'', JStr ''versionResponse''),
                          (''version'', JStr ''1.0.1'')]]\<rparr>)) \<and>
   (get_prop message ''action'' \<noteq> Inr (JStr ''versionCheck'') \<longrightarrow>
      posted (snd (message_listener message w)) = posted w)"
  by (auto simp: message_listener_def APP_VERSION_def Let_def split: sum.splits)

text \<open>The theorem for the messages \<^verbatim>\<open>{action: 'versionCheck', version: '1.0.0'}\<close>
  and \<^verbatim>\<open>{action: 'skipWaiting'}\<close>.\<close>

theorem message_listener_versionCheck_witness:
  "message_listener (JObj [(''action'', JStr ''versionCheck''), (''version'', JStr ''1.0.0'')])
     empty_world =
     (Inr (), empty_world\<lparr>posted :=
        [JObj [(''action'', JStr ''versionResponse''), (''version'', JStr ''1.0.1'')]]\<rparr>) \<and>
   posted (snd (message_listener (JObj [(''action'', JStr ''skipWaiting'')]) empty_world)) = []"
proof -
  have a: "get_prop (JObj [(''action'', JStr ''versionCheck''), (''version'', JStr ''1.0.0'')])
             ''action'' = Inr (JStr ''versionCheck'')"
    by simp
  have b: "get_prop (JObj [(''action'', JStr ''skipWaiting'')]) ''action'' \<noteq>
             Inr (JStr ''versionCheck'')"
    by simp
  have p: "posted empty_world = []"
    by (simp add: empty_world_def)
  from message_listener_versionCheck
         [of "JObj [(''action'', JStr ''versionCheck''), (''version'', JStr ''1.0.0'')]" empty_world]
       message_listener_versionCheck [of "JObj [(''action'', JStr ''skipWaiting'')]" empty_world]
       a b p
  show ?thesis by simp
qed

subsection \<open>Push\<close>

text \<open>
  C8, as the claim states it, fails on the code. When \<^verbatim>\<open>event.data.json()\<close> throws,
  the listener throws: nothing in it catches the \<^verbatim>\<open>SyntaxError\<close>. When the payload
  is the JSON text \<^verbatim>\<open>null\<close>, reading \<^verbatim>\<open>data.body\<close> throws a \<^verbatim>\<open>TypeError\<close> out of
  the listener.
\<close>

theorem push_listener_throws_counterexample:
  "fst (push_listener (Some (Inl SyntaxError)) empty_world) = Inl SyntaxError \<and>
   fst (push_listener (Some (Inl SyntaxError)) empty_world) \<noteq> Inr () \<and>
   fst (push_listener (Some (Inr JNull)) empty_world) = Inl TypeError"
  by (simp add: push_listener_def)

text \<open>
  C8, amended. A push without data does nothing. When \<^verbatim>\<open>json()\<close> throws, or the
  payload is \<^verbatim>\<open>null\<close>, the listener throws that error and shows no notification:
  the world is unchanged. For every other payload it shows exactly one notification,
  with title \<^verbatim>\<open>data.title || 'ShopEasy'\<close>, body
  \<^verbatim>\<open>data.body || 'New update from ShopEasy'\<close> and, as its data, the URL
  \<^verbatim>\<open>data.url || '/'\<close>; so a payload object with a non-empty string \<^verbatim>\<open>url\<close> gives a
  notification that carries that URL.
\<close>

theorem push_listener_outcomes:
  "push_listener None w = (Inr (), w) \<and>
   push_listener (Some (Inl e)) w = (Inl e, w) \<and>
   (data = JNull \<or> data = JUndefined \<longrightarrow>
      push_listener (Some (Inr data)) w = (Inl TypeError, w)) \<and>
   (data \<noteq> JNull \<and> data \<noteq> JUndefined \<longrightarrow>
      (\<exists>t b u. get_prop data ''title'' = Inr t \<and> get_prop data ''body'' = Inr b \<and>
               get_prop data ''url'' = Inr u \<and>
               push_listener (Some (Inr data)) w =
                 (Inr (),
                  w\<lparr>notifications := notifications w @
                       [\<lparr>n_title = js_or t (JStr ''ShopEasy''),
                         n_body = js_or b (JStr ''New update from ShopEasy''),
                         n_icon = ''logo.png'',
                         n_badge = ''logo.png'',
                         n_vibrate = [100, 50, 100],
                         n_data_url = js_or u (JStr ''/'')\<rparr>]\<rparr>))) \<and>
   (map_of fs ''url'' = Some (JStr target) \<and> target \<noteq> [] \<longrightarrow>
      (\<exists>n. notifications (snd (push_listener (Some (Inr (JObj fs))) w)) =
             notifications w @ [n] \<and>
           n_data_url n = JStr target))"
proof (intro conjI impI)
  show "push_listener None w = (Inr (), w)"
    by (simp add: push_listener_def)
  show "push_listener (Some (Inl e)) w = (Inl e, w)"
    by (simp add: push_listener_def)
next
  assume "data = JNull \<or> data = JUndefined"
  then show "push_listener (Some (Inr data)) w = (Inl TypeError, w)"
    by (auto simp: push_listener_def)
next
  assume "data \<noteq> JNull \<and> data \<noteq> JUndefined"
  then show "\<exists>t b u. get_prop data ''title'' = Inr t \<and> get_prop data ''body'' = Inr b \<and>
               get_prop data ''url'' = Inr u \<and>
               push_listener (Some (Inr data)) w =
                 (Inr (),
                  w\<lparr>notifications := notifications w @
                       [\<lparr>n_title = js_or t (JStr ''ShopEasy''),
                         n_body = js_or b (JStr ''New update from ShopEasy''),
                         n_icon = ''logo.png'',
                         n_badge = ''logo.png'',
                         n_vibrate = [100, 50, 100],
                         n_data_url = js_or u (JStr ''/'')\<rparr>]\<rparr>)"
    by (cases data) (auto simp: push_listener_def split: option.splits)
next
  assume "map_of fs ''url'' = Some (JStr target) \<and> target \<noteq> []"
  then show "\<exists>n. notifications (snd (push_listener (Some (Inr (JObj fs))) w)) =
             notifications w @ [n] \<and>
           n_data_url n = JStr target"
    by (auto simp: push_listener_def js_or_def split: option.splits)
qed

text \<open>The theorem for the payload \<^verbatim>\<open>{"title": "Sale", "url": "/deals"}\<close>, for the
  payload \<^verbatim>\<open>null\<close>, for a payload that is not JSON, and for a push without
  data.\<close>

theorem push_listener_outcomes_witness:
  "push_listener (Some (Inr (JObj [(''title'', JStr ''Sale''), (''url'', JStr ''/deals'')])))
     empty_world =
     (Inr (),
      empty_world\<lparr>notifications :=
        [\<lparr>n_title = JStr ''Sale'',
          n_body = JStr ''New update from ShopEasy'',
          n_icon = ''logo.png'',
          n_badge = ''logo.png'',
          n_vibrate = [100, 50, 100],
          n_data_url = JStr ''/deals''\<rparr>]\<rparr>) \<and>
   push_listener (Some (Inr JNull)) empty_world = (Inl TypeError, empty_world) \<and>
   push_listener (Some (Inl SyntaxError)) empty_world = (Inl SyntaxError, empty_world) \<and>
   push_listener None empty_world = (Inr (), empty_world)"
proof -
  have e: "notifications empty_world = []"
    by (simp add: empty_world_def)
  have "push_listener (Some (Inr (JObj [(''title'', JStr ''Sale''), (''url'', JStr ''/deals'')])))
     empty_world =
     (Inr (),
      empty_world\<lparr>notifications :=
        [\<lparr>n_title = JStr ''Sale'',
          n_body = JStr ''New update from ShopEasy'',
          n_icon = ''logo.png'',
          n_badge = ''logo.png'',
          n_vibrate = [100, 50, 100],
          n_data_url = JStr ''/deals''\<rparr>]\<rparr>)"
    using push_listener_outcomes
         [where w = empty_world
            and data = "JObj [(''title'', JStr ''Sale''), (''url'', JStr ''/deals'')]"] e
    by (auto simp: js_or_def)
  moreover have "push_listener (Some (Inr JNull)) empty_world = (Inl TypeError, empty_world) \<and>
    push_listener (Some (Inl SyntaxError)) empty_world = (Inl SyntaxError, empty_world) \<and>
    push_listener None empty_world = (Inr (), empty_world)"
    using push_listener_outcomes [where w = empty_world and data = JNull and e = SyntaxError]
    by simp
  ultimately show ?thesis by simp
qed

end
